theory Spec2Isabelle
  imports Main "HOL-Library.Sublist"
begin

section \<open>S3 Control Object Lambda Access Point resource\<close>

text \<open>
  A shallow embedding of \<^verbatim>\<open>internal/service/s3control/object_lambda_access_point.go\<close>:
  the resource-ID codec, the expand and flatten functions and the four CRUD handlers.
  Go strings are byte sequences, so they are \<^typ>\<open>string\<close>; a pointer field of an API
  structure is an \<^typ>\<open>'a option\<close> (\<^term>\<open>None\<close> is the nil pointer); a slice that may be
  nil is an \<^typ>\<open>'a list option\<close>; a panic and an error return are values.
\<close>

subsection \<open>Errors\<close>

text \<open>
  The error values the file builds or inspects. \<open>Errorf\<close> is \<^verbatim>\<open>fmt.Errorf\<close> without
  a \<^verbatim>\<open>%w\<close> verb (the formatted message), \<open>Errorf_w\<close> is \<^verbatim>\<open>fmt.Errorf\<close> whose format
  ends in \<^verbatim>\<open>%w\<close> (the text before the cause, and the wrapped cause),
  \<open>NotFoundError\<close> is the SDK's \<^verbatim>\<open>resource.NotFoundError\<close> and \<open>AwsError\<close> an
  \<^verbatim>\<open>awserr.Error\<close> with its code and message. Any other failure of the remote API
  is an \<open>OtherError\<close>.
\<close>

datatype error =
    Errorf string
  | Errorf_w string error
  | NotFoundError string
  | AwsError string string
  | OtherError string

datatype panic = InterfaceConversion

fun Error :: "error \<Rightarrow> string" where
  "Error (Errorf msg) = msg"
| "Error (Errorf_w msg cause) = msg @ Error cause"
| "Error (NotFoundError msg) = msg"
| "Error (AwsError code msg) = code @ '': '' @ msg"
| "Error (OtherError msg) = msg"

text \<open>
  Modelled from the spec: \<^verbatim>\<open>tfresource.NotFound\<close> is declared outside this file. The
  finder signals "not found" with a \<open>NotFoundError\<close>, which is looked for through the
  chain of wrapped causes; a nil error is not "not found".
\<close>

fun is_NotFoundError :: "error \<Rightarrow> bool" where
  "is_NotFoundError (NotFoundError msg) = True"
| "is_NotFoundError (Errorf_w msg cause) = is_NotFoundError cause"
| "is_NotFoundError (Errorf msg) = False"
| "is_NotFoundError (AwsError code msg) = False"
| "is_NotFoundError (OtherError msg) = False"

definition NotFound :: "error option \<Rightarrow> bool" where
  "NotFound err = (case err of None \<Rightarrow> False | Some e \<Rightarrow> is_NotFoundError e)"

text \<open>
  \<^verbatim>\<open>tfawserr.ErrCodeEquals(err, code)\<close>: the first \<^verbatim>\<open>awserr.Error\<close> in the chain of
  wrapped causes carries that code; false on a nil error.
\<close>

fun has_code :: "error \<Rightarrow> string \<Rightarrow> bool" where
  "has_code (AwsError c msg) code = (c = code)"
| "has_code (Errorf_w msg cause) code = has_code cause code"
| "has_code (Errorf msg) code = False"
| "has_code (NotFoundError msg) code = False"
| "has_code (OtherError msg) code = False"

definition ErrCodeEquals :: "error option \<Rightarrow> string \<Rightarrow> bool" where
  "ErrCodeEquals err code = (case err of None \<Rightarrow> False | Some e \<Rightarrow> has_code e code)"

text \<open>
  Modelled from the spec: the constant \<^verbatim>\<open>errCodeNoSuchAccessPoint\<close> is declared outside
  this file; it is the remote API's "no such access point" error code.
\<close>

definition errCodeNoSuchAccessPoint :: string where
  "errCodeNoSuchAccessPoint = ''NoSuchAccessPoint''"

subsection \<open>The string functions of the standard library\<close>

text \<open>
  \<^verbatim>\<open>strings.Index(s, substr)\<close>: the position of the first occurrence, \<^term>\<open>None\<close> for
  Go's \<open>-1\<close>.
\<close>

fun Index :: "string \<Rightarrow> string \<Rightarrow> nat option" where
  "Index [] substr = (if substr = [] then Some 0 else None)"
| "Index (c # cs) substr =
     (if prefix substr (c # cs) then Some 0 else map_option Suc (Index cs substr))"

text \<open>
  \<^verbatim>\<open>strings.Split(s, sep)\<close>: cut at every occurrence of the separator, found from the
  left; a string without the separator is the only part. With an empty separator Go
  cuts after every UTF-8 sequence, which is after every byte on ASCII input; the
  resource's separator is never empty.
\<close>

function Split :: "string \<Rightarrow> string \<Rightarrow> string list" where
  "Split s sep =
     (if sep = [] then map (\<lambda>c. [c]) s
      else case Index s sep of
             None \<Rightarrow> [s]
           | Some m \<Rightarrow> take m s # Split (drop (m + length sep) s) sep)"
  by pat_completeness auto

termination Split
proof (relation "measure (\<lambda>(s, sep). length s)")
  show "wf (measure (\<lambda>(s, sep). length s))" by simp
next
  fix s sep :: string and m
  assume sep: "sep \<noteq> []" and found: "Index s sep = Some m"
  have "Index t sep = Some k \<Longrightarrow> k + length sep \<le> length t" for t k
    by (induction t arbitrary: k) (auto split: if_splits dest: prefix_length_le)
  from this [OF found] sep
  show "((drop (m + length sep) s, sep), (s, sep)) \<in> measure (\<lambda>(s, sep). length s)"
    by (cases sep) auto
qed

declare Split.simps [simp del]

text \<open>\<^verbatim>\<open>strings.Join(elems, sep)\<close>.\<close>

fun Join :: "string list \<Rightarrow> string \<Rightarrow> string" where
  "Join [] sep = []"
| "Join [x] sep = x"
| "Join (x # y # ys) sep = x @ sep @ Join (y # ys) sep"

subsection \<open>The resource-ID codec\<close>

definition objectLambdaAccessPointResourceIDSeparator :: string where
  "objectLambdaAccessPointResourceIDSeparator = '':''"

definition ObjectLambdaAccessPointCreateResourceID :: "string \<Rightarrow> string \<Rightarrow> string" where
  "ObjectLambdaAccessPointCreateResourceID accountID accessPointName =
     (let parts = [accountID, accessPointName];
          ident = Join parts objectLambdaAccessPointResourceIDSeparator
      in ident)"

definition ObjectLambdaAccessPointParseResourceID :: "string \<Rightarrow> error + (string \<times> string)" where
  "ObjectLambdaAccessPointParseResourceID ident =
     (let parts = Split ident objectLambdaAccessPointResourceIDSeparator
      in if length parts = 2 \<and> parts ! 0 \<noteq> [] \<and> parts ! 1 \<noteq> []
         then Inr (parts ! 0, parts ! 1)
         else Inl (Errorf (''unexpected format for ID ('' @ ident @ ''), expected account-id''
                           @ objectLambdaAccessPointResourceIDSeparator
                           @ ''access-point-name'')))"

subsection \<open>Flat configuration values and API structures\<close>

text \<open>
  A value of type \<^verbatim>\<open>interface{}\<close> in a flat configuration: the nil interface, a string,
  a bool, a \<^verbatim>\<open>*schema.Set\<close> (its members in \<^verbatim>\<open>List()\<close> order), a \<^verbatim>\<open>[]interface{}\<close>
  and a \<^verbatim>\<open>map[string]interface{}\<close>, which may be the nil map.
\<close>

datatype iface =
    INil
  | IString string
  | IBool bool
  | ISet "iface list"
  | IList "iface list"
  | IMap "(string \<Rightarrow> iface option) option"

type_synonym tfMap = "(string \<Rightarrow> iface option) option"

text \<open>\<^verbatim>\<open>tfMap[key]\<close>: a missing key, and any key of the nil map, reads as the nil interface.\<close>

definition at_key :: "tfMap \<Rightarrow> string \<Rightarrow> iface" where
  "at_key m key =
     (case m of
        None \<Rightarrow> INil
      | Some f \<Rightarrow> (case f key of None \<Rightarrow> INil | Some v \<Rightarrow> v))"

text \<open>\<^verbatim>\<open>append(s, x)\<close> on a slice that may be nil.\<close>

definition append_slice :: "'a list option \<Rightarrow> 'a \<Rightarrow> 'a list option" where
  "append_slice s x = (case s of None \<Rightarrow> Some [x] | Some xs \<Rightarrow> Some (xs @ [x]))"

record AwsLambdaTransformation =
  FunctionArn :: "string option"
  FunctionPayload :: "string option"

record ObjectLambdaContentTransformation =
  AwsLambda :: "AwsLambdaTransformation option"

record ObjectLambdaTransformationConfiguration =
  Actions :: "string list option"
  ContentTransformation :: "ObjectLambdaContentTransformation option"

record ObjectLambdaConfiguration =
  AllowedFeatures :: "string list option"
  CloudWatchMetricsEnabled :: "bool option"
  SupportingAccessPoint :: "string option"
  TransformationConfigurations :: "ObjectLambdaTransformationConfiguration list option"

record VpcConfiguration =
  VpcId :: "string option"

record PublicAccessBlockConfiguration =
  BlockPublicAcls :: "bool option"
  BlockPublicPolicy :: "bool option"
  IgnorePublicAcls :: "bool option"
  RestrictPublicBuckets :: "bool option"

record CreateAccessPointForObjectLambdaInput =
  AccountId :: "string option"
  Configuration :: "ObjectLambdaConfiguration option"
  Name :: "string option"

text \<open>\<^verbatim>\<open>aws.StringValue\<close> and \<^verbatim>\<open>aws.BoolValue\<close>: the zero value for a nil pointer.\<close>

definition StringValue :: "string option \<Rightarrow> string" where
  "StringValue p = (case p of None \<Rightarrow> [] | Some s \<Rightarrow> s)"

definition BoolValue :: "bool option \<Rightarrow> bool" where
  "BoolValue p = (case p of None \<Rightarrow> False | Some b \<Rightarrow> b)"

text \<open>
  Modelled from the spec: \<^verbatim>\<open>flex.ExpandStringSet\<close> is declared outside this file. A
  present collection is converted one to one into a list of strings, which is never
  the nil slice.
\<close>

fun ExpandStringList :: "iface list \<Rightarrow> string list" where
  "ExpandStringList [] = []"
| "ExpandStringList (IString s # vs) = s # ExpandStringList vs"
| "ExpandStringList (v # vs) = ExpandStringList vs"

definition ExpandStringSet :: "iface list \<Rightarrow> string list option" where
  "ExpandStringSet v = Some (ExpandStringList v)"

subsection \<open>Expand\<close>

definition expandAwsLambdaTransformation :: "tfMap \<Rightarrow> AwsLambdaTransformation option" where
  "expandAwsLambdaTransformation tfMap =
     (if tfMap = None then None
      else Some \<lparr>
        FunctionArn =
          (case at_key tfMap ''function_arn'' of
             IString v \<Rightarrow> if v \<noteq> [] then Some v else None
           | _ \<Rightarrow> None),
        FunctionPayload =
          (case at_key tfMap ''function_payload'' of
             IString v \<Rightarrow> if v \<noteq> [] then Some v else None
           | _ \<Rightarrow> None) \<rparr>)"

text \<open>
  The single-value assertion \<^verbatim>\<open>v[0].(map[string]interface{})\<close> panics on anything that
  is not a map, the nil interface included.
\<close>

definition expandObjectLambdaContentTransformation ::
  "tfMap \<Rightarrow> panic + ObjectLambdaContentTransformation option" where
  "expandObjectLambdaContentTransformation tfMap =
     (if tfMap = None then Inr None
      else case at_key tfMap ''aws_lambda'' of
             IList (IMap m # _) \<Rightarrow> Inr (Some \<lparr> AwsLambda = expandAwsLambdaTransformation m \<rparr>)
           | IList (_ # _) \<Rightarrow> Inl InterfaceConversion
           | _ \<Rightarrow> Inr (Some \<lparr> AwsLambda = None \<rparr>))"

definition expandObjectLambdaTransformationConfiguration ::
  "tfMap \<Rightarrow> panic + ObjectLambdaTransformationConfiguration option" where
  "expandObjectLambdaTransformationConfiguration tfMap =
     (if tfMap = None then Inr None
      else
        let actions =
              (case at_key tfMap ''actions'' of
                 ISet v \<Rightarrow> if length v > 0 then ExpandStringSet v else None
               | _ \<Rightarrow> None)
        in case at_key tfMap ''content_transformation'' of
             IList (IMap m # _) \<Rightarrow>
               (case expandObjectLambdaContentTransformation m of
                  Inl p \<Rightarrow> Inl p
                | Inr ct \<Rightarrow> Inr (Some \<lparr> Actions = actions, ContentTransformation = ct \<rparr>))
           | IList (_ # _) \<Rightarrow> Inl InterfaceConversion
           | _ \<Rightarrow> Inr (Some \<lparr> Actions = actions, ContentTransformation = None \<rparr>))"

text \<open>
  The loop of \<^verbatim>\<open>expandObjectLambdaTransformationConfigurations\<close>, with the slice
  \<^verbatim>\<open>apiObjects\<close> built so far: an element that is not a map, or that expands to nil, is
  skipped.
\<close>

fun expandObjectLambdaTransformationConfigurations_loop ::
  "iface list \<Rightarrow> ObjectLambdaTransformationConfiguration list option
     \<Rightarrow> panic + ObjectLambdaTransformationConfiguration list option" where
  "expandObjectLambdaTransformationConfigurations_loop [] apiObjects = Inr apiObjects"
| "expandObjectLambdaTransformationConfigurations_loop (IMap tfMap # rest) apiObjects =
     (case expandObjectLambdaTransformationConfiguration tfMap of
        Inl p \<Rightarrow> Inl p
      | Inr None \<Rightarrow> expandObjectLambdaTransformationConfigurations_loop rest apiObjects
      | Inr (Some apiObject) \<Rightarrow>
          expandObjectLambdaTransformationConfigurations_loop rest (append_slice apiObjects apiObject))"
| "expandObjectLambdaTransformationConfigurations_loop (tfMapRaw # rest) apiObjects =
     expandObjectLambdaTransformationConfigurations_loop rest apiObjects"

definition expandObjectLambdaTransformationConfigurations ::
  "iface list \<Rightarrow> panic + ObjectLambdaTransformationConfiguration list option" where
  "expandObjectLambdaTransformationConfigurations tfList =
     (if length tfList = 0 then Inr None
      else expandObjectLambdaTransformationConfigurations_loop tfList None)"

definition expandObjectLambdaConfiguration ::
  "tfMap \<Rightarrow> panic + ObjectLambdaConfiguration option" where
  "expandObjectLambdaConfiguration tfMap =
     (if tfMap = None then Inr None
      else
        let allowed =
              (case at_key tfMap ''allowed_features'' of
                 ISet v \<Rightarrow> if length v > 0 then ExpandStringSet v else None
               | _ \<Rightarrow> None);
            metrics =
              (case at_key tfMap ''cloud_watch_metrics_enabled'' of
                 IBool v \<Rightarrow> if v then Some v else None
               | _ \<Rightarrow> None);
            supporting =
              (case at_key tfMap ''supporting_access_point'' of
                 IString v \<Rightarrow> if v \<noteq> [] then Some v else None
               | _ \<Rightarrow> None)
        in case (case at_key tfMap ''transformation_configuration'' of
                   ISet v \<Rightarrow>
                     if length v > 0 then expandObjectLambdaTransformationConfigurations v
                     else Inr None
                 | _ \<Rightarrow> Inr None) of
             Inl p \<Rightarrow> Inl p
           | Inr tcs \<Rightarrow>
               Inr (Some \<lparr> AllowedFeatures = allowed, CloudWatchMetricsEnabled = metrics,
                           SupportingAccessPoint = supporting,
                           TransformationConfigurations = tcs \<rparr>))"

text \<open>
  The two block expanders read every key with a single-value assertion, which panics
  on a missing key or a value of another type.
\<close>

definition expandS3ObjectLambdaAccessPointVpcConfiguration ::
  "iface list option \<Rightarrow> panic + VpcConfiguration option" where
  "expandS3ObjectLambdaAccessPointVpcConfiguration vConfig =
     (case vConfig of
        None \<Rightarrow> Inr None
      | Some [] \<Rightarrow> Inr None
      | Some (INil # _) \<Rightarrow> Inr None
      | Some (IMap mConfig # _) \<Rightarrow>
          (case at_key mConfig ''vpc_id'' of
             IString v \<Rightarrow> Inr (Some \<lparr> VpcId = Some v \<rparr>)
           | _ \<Rightarrow> Inl InterfaceConversion)
      | Some (_ # _) \<Rightarrow> Inl InterfaceConversion)"

definition flattenS3ObjectLambdaAccessPointVpcConfiguration ::
  "VpcConfiguration option \<Rightarrow> iface list option" where
  "flattenS3ObjectLambdaAccessPointVpcConfiguration config =
     (case config of
        None \<Rightarrow> Some []
      | Some c \<Rightarrow> Some [IMap (Some [''vpc_id'' \<mapsto> IString (StringValue (VpcId c))])])"

definition expandS3ObjectLambdaAccessPointPublicAccessBlockConfiguration ::
  "iface list option \<Rightarrow> panic + PublicAccessBlockConfiguration option" where
  "expandS3ObjectLambdaAccessPointPublicAccessBlockConfiguration vConfig =
     (case vConfig of
        None \<Rightarrow> Inr None
      | Some [] \<Rightarrow> Inr None
      | Some (INil # _) \<Rightarrow> Inr None
      | Some (IMap mConfig # _) \<Rightarrow>
          (case (at_key mConfig ''block_public_acls'', at_key mConfig ''block_public_policy'',
                 at_key mConfig ''ignore_public_acls'',
                 at_key mConfig ''restrict_public_buckets'') of
             (IBool a, IBool p, IBool i, IBool r) \<Rightarrow>
               Inr (Some \<lparr> BlockPublicAcls = Some a, BlockPublicPolicy = Some p,
                           IgnorePublicAcls = Some i, RestrictPublicBuckets = Some r \<rparr>)
           | _ \<Rightarrow> Inl InterfaceConversion)
      | Some (_ # _) \<Rightarrow> Inl InterfaceConversion)"

definition flattenS3ObjectLambdaAccessPointPublicAccessBlockConfiguration ::
  "PublicAccessBlockConfiguration option \<Rightarrow> iface list option" where
  "flattenS3ObjectLambdaAccessPointPublicAccessBlockConfiguration config =
     (case config of
        None \<Rightarrow> Some []
      | Some c \<Rightarrow>
          Some [IMap (Some [''block_public_acls'' \<mapsto> IBool (BoolValue (BlockPublicAcls c)),
                            ''block_public_policy'' \<mapsto> IBool (BoolValue (BlockPublicPolicy c)),
                            ''ignore_public_acls'' \<mapsto> IBool (BoolValue (IgnorePublicAcls c)),
                            ''restrict_public_buckets'' \<mapsto>
                              IBool (BoolValue (RestrictPublicBuckets c))])])"

subsection \<open>Unset flat values\<close>


subsection \<open>The resource data, the client and the CRUD handlers\<close>

text \<open>
  \<^verbatim>\<open>schema.ResourceData\<close> for this resource's schema: the identifier, the flag behind
  \<^verbatim>\<open>IsNewResource()\<close> and one field for each of the four attributes. \<^verbatim>\<open>d.Get\<close> reads a
  field, \<^verbatim>\<open>d.GetOk\<close> also tells whether it differs from the zero value of its type, and
  \<^verbatim>\<open>d.Set\<close> writes one.
\<close>

record ResourceData =
  Id :: string
  IsNewResource :: bool
  account_id :: string
  arn :: string
  configuration :: "iface list"
  name :: string

definition SetId :: "ResourceData \<Rightarrow> string \<Rightarrow> ResourceData" where
  "SetId d v = d\<lparr>Id := v\<rparr>"

text \<open>\<^verbatim>\<open>arn.ARN\<close> of the AWS SDK and its \<^verbatim>\<open>String\<close> method.\<close>

record ARN =
  arnPartition :: string
  arnService :: string
  arnRegion :: string
  arnAccountID :: string
  arnResource :: string

definition ARN_String :: "ARN \<Rightarrow> string" where
  "ARN_String a =
     ''arn:'' @ arnPartition a @ '':'' @ arnService a @ '':'' @ arnRegion a @ '':''
       @ arnAccountID a @ '':'' @ arnResource a"

text \<open>
  The remote API as the handlers see it: what each call answers for its arguments
  (\<^term>\<open>None\<close> is the nil error). The finder
  \<^verbatim>\<open>FindObjectLambdaAccessPointByAccountIDAndName\<close> is declared outside this file and its
  output is discarded by the handlers, so it is the error it returns for this connection.
\<close>

record S3Control =
  CreateAccessPointForObjectLambda :: "CreateAccessPointForObjectLambdaInput \<Rightarrow> error option"
  FindObjectLambdaAccessPointByAccountIDAndName :: "string \<Rightarrow> string \<Rightarrow> error option"
  DeleteAccessPointForObjectLambda :: "string \<Rightarrow> string \<Rightarrow> error option"

record AWSClient =
  AccountID :: string
  Partition :: string
  S3ControlConn :: S3Control

text \<open>The calls a handler makes on the connection, in order.\<close>

datatype api_call =
    Call_Create CreateAccessPointForObjectLambdaInput
  | Call_Find string string
  | Call_Delete string string

text \<open>
  What a handler leaves behind: the error it returns, the resource data after it and
  the calls it made.
\<close>

record outcome =
  returned :: "error option"
  data :: ResourceData
  calls :: "api_call list"

definition resourceObjectLambdaAccessPointRead :: "ResourceData \<Rightarrow> AWSClient \<Rightarrow> outcome" where
  "resourceObjectLambdaAccessPointRead d meta =
     (let conn = S3ControlConn meta
      in case ObjectLambdaAccessPointParseResourceID (Id d) of
           Inl err \<Rightarrow> \<lparr> returned = Some err, data = d, calls = [] \<rparr>
         | Inr (accountID, accessPointName) \<Rightarrow>
             (let err = FindObjectLambdaAccessPointByAccountIDAndName conn accountID accessPointName;
                  made = [Call_Find accountID accessPointName]
              in if \<not> IsNewResource d \<and> NotFound err
                 then \<lparr> returned = None, data = SetId d [], calls = made \<rparr>
                 else case err of
                        Some e \<Rightarrow>
                          \<lparr> returned =
                              Some (Errorf_w (''error reading S3 Object Lambda Access Point (''
                                              @ Id d @ ''): '') e),
                            data = d, calls = made \<rparr>
                      | None \<Rightarrow>
                          \<lparr> returned = None,
                            data = d\<lparr> account_id := accountID,
                                      arn := ARN_String
                                        \<lparr> arnPartition = Partition meta,
                                          arnService = ''s3-object-lambda'',
                                          arnRegion = [],
                                          arnAccountID = accountID,
                                          arnResource = ''accesspoint/'' @ accessPointName \<rparr>,
                                      name := accessPointName \<rparr>,
                            calls = made \<rparr>))"

definition resourceObjectLambdaAccessPointUpdate :: "ResourceData \<Rightarrow> AWSClient \<Rightarrow> outcome" where
  "resourceObjectLambdaAccessPointUpdate d meta = resourceObjectLambdaAccessPointRead d meta"

definition resourceObjectLambdaAccessPointDelete :: "ResourceData \<Rightarrow> AWSClient \<Rightarrow> outcome" where
  "resourceObjectLambdaAccessPointDelete d meta =
     (let conn = S3ControlConn meta
      in case ObjectLambdaAccessPointParseResourceID (Id d) of
           Inl err \<Rightarrow> \<lparr> returned = Some err, data = d, calls = [] \<rparr>
         | Inr (accountID, accessPointName) \<Rightarrow>
             (let err = DeleteAccessPointForObjectLambda conn accountID accessPointName;
                  made = [Call_Delete accountID accessPointName]
              in if ErrCodeEquals err errCodeNoSuchAccessPoint
                 then \<lparr> returned = None, data = d, calls = made \<rparr>
                 else case err of
                        Some e \<Rightarrow>
                          \<lparr> returned =
                              Some (Errorf_w (''error deleting S3 Object Lambda Access Point (''
                                              @ Id d @ ''): '') e),
                            data = d, calls = made \<rparr>
                      | None \<Rightarrow> \<lparr> returned = None, data = d, calls = made \<rparr>))"

text \<open>
  Create panics where the first element of \<^verbatim>\<open>configuration\<close> is neither nil nor a map,
  or where the expansion does.
\<close>

definition resourceObjectLambdaAccessPointCreate ::
  "ResourceData \<Rightarrow> AWSClient \<Rightarrow> panic + outcome" where
  "resourceObjectLambdaAccessPointCreate d meta =
     (let conn = S3ControlConn meta;
          accountID = (if account_id d \<noteq> [] then account_id d else AccountID meta);
          accessPointName = name d;
          resourceID = ObjectLambdaAccessPointCreateResourceID accountID accessPointName
      in case (case configuration d of
                 [] \<Rightarrow> Inr None
               | INil # _ \<Rightarrow> Inr None
               | IMap m # _ \<Rightarrow> expandObjectLambdaConfiguration m
               | _ # _ \<Rightarrow> Inl InterfaceConversion) of
           Inl p \<Rightarrow> Inl p
         | Inr cfg \<Rightarrow>
             (let input = \<lparr> AccountId = Some accountID, Configuration = cfg,
                            Name = Some accessPointName \<rparr>
              in case CreateAccessPointForObjectLambda conn input of
                   Some e \<Rightarrow>
                     Inr \<lparr> returned =
                             Some (Errorf_w (''error creating S3 Object Lambda Access Point (''
                                             @ resourceID @ ''): '') e),
                           data = d, calls = [Call_Create input] \<rparr>
                 | None \<Rightarrow>
                     (let r = resourceObjectLambdaAccessPointRead (SetId d resourceID) meta
                      in Inr (r\<lparr> calls := Call_Create input # calls r \<rparr>))))"

section \<open>The resource-ID codec\<close>

subsection \<open>Splitting and joining\<close>

lemma Index_cut: "Index s sep = Some m \<Longrightarrow> s = take m s @ sep @ drop (m + length sep) s"
  by (induction s arbitrary: m) (auto split: if_splits simp: prefix_def)

lemma Join_Cons: "Join (x # xs) sep = (if xs = [] then x else x @ sep @ Join xs sep)"
  by (cases xs) auto

lemma Split_not_Nil: "sep \<noteq> [] \<Longrightarrow> Split s sep \<noteq> []"
  by (subst Split.simps) (auto split: option.splits)

text \<open>Joining the parts of a split with the same separator gives the string back.\<close>

lemma Join_Split: "sep \<noteq> [] \<Longrightarrow> Join (Split s sep) sep = s"
proof (induction s sep rule: Split.induct)
  case (1 s sep)
  show ?case
  proof (cases "Index s sep")
    case None
    with 1 show ?thesis by (subst Split.simps) simp
  next
    case (Some m)
    have "Join (Split s sep) sep = take m s @ sep @ Join (Split (drop (m + length sep) s) sep) sep"
      using Some 1(2) Split_not_Nil [OF 1(2)] by (subst Split.simps) (simp add: Join_Cons)
    also have "\<dots> = take m s @ sep @ drop (m + length sep) s"
      using 1(1) [OF 1(2) Some] 1(2) by simp
    also have "\<dots> = s" using Index_cut [OF Some] by simp
    finally show ?thesis .
  qed
qed

text \<open>A separator of one byte.\<close>

lemma Index_byte_None: "c \<notin> set s \<Longrightarrow> Index s [c] = None"
  by (induction s) auto

lemma Index_byte_Some: "c \<notin> set a \<Longrightarrow> Index (a @ c # b) [c] = Some (length a)"
  by (induction a) auto

lemma Split_byte_Nil: "c \<notin> set s \<Longrightarrow> Split s [c] = [s]"
  by (subst Split.simps) (simp add: Index_byte_None)

lemma Split_byte_Cons: "c \<notin> set a \<Longrightarrow> Split (a @ c # b) [c] = a # Split b [c]"
  by (subst Split.simps) (simp add: Index_byte_Some)

lemma Split_byte_step:
  "Split (c # cs) [k] =
     (if c = k then [] # Split cs [k]
      else case Split cs [k] of [] \<Rightarrow> [] | p # ps \<Rightarrow> (c # p) # ps)"
proof (cases "c = k")
  case True
  then show ?thesis using Split_byte_Cons [of k "[]" cs] by simp
next
  case False
  show ?thesis
  proof (cases "k \<in> set cs")
    case no: False
    with False show ?thesis by (simp add: Split_byte_Nil)
  next
    case True
    then obtain a b where cs: "cs = a @ k # b" and a: "k \<notin> set a"
      by (meson split_list_first)
    from a False have "k \<notin> set (c # a)" by auto
    from Split_byte_Cons [OF this, of b] Split_byte_Cons [OF a, of b] False
    show ?thesis by (simp add: cs)
  qed
qed

lemma Split_colon_simps:
  "Split [] '':'' = [[]]"
  "Split (c # cs) '':'' =
     (if c = CHR '':'' then [] # Split cs '':''
      else case Split cs '':'' of [] \<Rightarrow> [] | p # ps \<Rightarrow> (c # p) # ps)"
  by (simp add: Split_byte_Nil) (rule Split_byte_step)

text \<open>There is one part more than there are separators.\<close>

lemma length_Split_byte: "length (Split s [c]) = Suc (count_list s c)"
proof (induction "length s" arbitrary: s rule: less_induct)
  case less
  show ?case
  proof (cases "c \<in> set s")
    case False
    then show ?thesis by (simp add: Split_byte_Nil)
  next
    case True
    then obtain a b where s: "s = a @ c # b" and a: "c \<notin> set a"
      by (meson split_list_first)
    have "length b < length s" using s by simp
    from less [OF this] a show ?thesis
      by (simp add: s Split_byte_Cons)
  qed
qed

lemma Split_byte_two:
  "Split s [c] = [a, b] \<longleftrightarrow> s = a @ c # b \<and> c \<notin> set a \<and> c \<notin> set b"
proof
  assume h: "Split s [c] = [a, b]"
  have "Join (Split s [c]) [c] = s" by (rule Join_Split) simp
  with h have s: "s = a @ c # b" by simp
  from h have "count_list s c = 1" using length_Split_byte [of s c] by simp
  with s have "count_list a c + count_list b c = 0" by simp
  then show "s = a @ c # b \<and> c \<notin> set a \<and> c \<notin> set b" using s
    by (simp add: count_list_0_iff)
next
  assume "s = a @ c # b \<and> c \<notin> set a \<and> c \<notin> set b"
  then show "Split s [c] = [a, b]" by (simp add: Split_byte_Cons Split_byte_Nil)
qed

lemma length_two: "length xs = 2 \<longleftrightarrow> (\<exists>a b. xs = [a, b])"
  by (cases xs; cases "tl xs") auto

text \<open>What the decoder accepts.\<close>

lemma ParseResourceID_Inr:
  "ObjectLambdaAccessPointParseResourceID s = Inr (a, b) \<longleftrightarrow>
     Split s '':'' = [a, b] \<and> a \<noteq> [] \<and> b \<noteq> []"
  unfolding ObjectLambdaAccessPointParseResourceID_def
    objectLambdaAccessPointResourceIDSeparator_def
  by (auto simp: Let_def length_two)

subsection \<open>Encoding, then decoding\<close>

text \<open>
  C1, as the spec states it, fails: non-empty components do not suffice. The account ID
  \<open>123456789012\<close> and the access point name \<open>my:ap\<close> encode to an identifier with two
  separators, which the decoder rejects.
\<close>

theorem ParseResourceID_CreateResourceID_counterexample:
  "''123456789012'' \<noteq> [] \<and> ''my:ap'' \<noteq> [] \<and>
   ObjectLambdaAccessPointParseResourceID
     (ObjectLambdaAccessPointCreateResourceID ''123456789012'' ''my:ap'')
   = Inl (Errorf
       ''unexpected format for ID (123456789012:my:ap), expected account-id:access-point-name'')"
  by (simp add: ObjectLambdaAccessPointParseResourceID_def
      ObjectLambdaAccessPointCreateResourceID_def
      objectLambdaAccessPointResourceIDSeparator_def Split_colon_simps)

text \<open>
  C1, amended: decoding the identifier encoded from two components returns exactly
  these components, with no error, if and only if both are non-empty and neither
  contains the separator \<open>:\<close>.
\<close>

theorem ParseResourceID_CreateResourceID:
  "ObjectLambdaAccessPointParseResourceID
     (ObjectLambdaAccessPointCreateResourceID accountID accessPointName)
   = Inr (accountID, accessPointName)
   \<longleftrightarrow> accountID \<noteq> [] \<and> accessPointName \<noteq> []
       \<and> CHR '':'' \<notin> set accountID \<and> CHR '':'' \<notin> set accessPointName"
  unfolding ParseResourceID_Inr Split_byte_two
  by (auto simp: ObjectLambdaAccessPointCreateResourceID_def
      objectLambdaAccessPointResourceIDSeparator_def)

theorem ParseResourceID_CreateResourceID_witness:
  "ObjectLambdaAccessPointParseResourceID
     (ObjectLambdaAccessPointCreateResourceID ''123456789012'' ''example'')
   = Inr (''123456789012'', ''example'')"
  using ParseResourceID_CreateResourceID [of "''123456789012''" "''example''"] by simp

subsection \<open>Malformed identifiers\<close>

text \<open>
  C3: the decoder fails for the empty string, for an identifier that does not split at
  \<open>:\<close> into exactly two parts and for one with an empty part, and the message of the
  error names the expected format \<open>account-id:access-point-name\<close>.
\<close>

theorem ParseResourceID_malformed:
  assumes "ident = [] \<or> length (Split ident '':'') \<noteq> 2 \<or> [] \<in> set (Split ident '':'')"
  shows "\<exists>e. ObjectLambdaAccessPointParseResourceID ident = Inl e \<and>
             Error e = ''unexpected format for ID ('' @ ident
                        @ ''), expected account-id:access-point-name''"
proof -
  have "Split [] '':'' = [[]]" by (simp add: Split_colon_simps)
  with assms have "length (Split ident '':'') \<noteq> 2 \<or> [] \<in> set (Split ident '':'')"
    by auto
  then show ?thesis
    unfolding ObjectLambdaAccessPointParseResourceID_def
      objectLambdaAccessPointResourceIDSeparator_def
    by (auto simp: Let_def length_two)
qed

theorem ParseResourceID_malformed_witness:
  "(\<exists>e. ObjectLambdaAccessPointParseResourceID [] = Inl e \<and>
        Error e = ''unexpected format for ID (), expected account-id:access-point-name'') \<and>
   (\<exists>e. ObjectLambdaAccessPointParseResourceID '':name'' = Inl e \<and>
        Error e = ''unexpected format for ID (:name), expected account-id:access-point-name'') \<and>
   (\<exists>e. ObjectLambdaAccessPointParseResourceID ''account:'' = Inl e \<and>
        Error e
          = ''unexpected format for ID (account:), expected account-id:access-point-name'') \<and>
   (\<exists>e. ObjectLambdaAccessPointParseResourceID ''a:b:c'' = Inl e \<and>
        Error e = ''unexpected format for ID (a:b:c), expected account-id:access-point-name'')"
proof -
  have a: "[] \<in> set (Split '':name'' '':'')" by (simp add: Split_colon_simps)
  have b: "[] \<in> set (Split ''account:'' '':'')" by (simp add: Split_colon_simps)
  have c: "length (Split ''a:b:c'' '':'') \<noteq> 2" by (simp add: Split_colon_simps)
  show ?thesis
    using ParseResourceID_malformed [of "[]"] ParseResourceID_malformed [of "'':name''"]
      ParseResourceID_malformed [of "''account:''"] ParseResourceID_malformed [of "''a:b:c''"]
      a b c
    by simp
qed

subsection \<open>Decoding, then encoding\<close>

text \<open>
  C10: an identifier that the decoder accepts is the encoding of its two decoded
  components, so it has the canonical form: two non-empty parts without a separator,
  joined by one \<open>:\<close>.
\<close>

theorem CreateResourceID_ParseResourceID:
  assumes "ObjectLambdaAccessPointParseResourceID ident = Inr (accountID, accessPointName)"
  shows "ObjectLambdaAccessPointCreateResourceID accountID accessPointName = ident \<and>
         ident = accountID @ '':'' @ accessPointName \<and>
         accountID \<noteq> [] \<and> accessPointName \<noteq> [] \<and>
         CHR '':'' \<notin> set accountID \<and> CHR '':'' \<notin> set accessPointName"
  using assms unfolding ParseResourceID_Inr Split_byte_two
  by (auto simp: ObjectLambdaAccessPointCreateResourceID_def
      objectLambdaAccessPointResourceIDSeparator_def)

theorem CreateResourceID_ParseResourceID_witness:
  "ObjectLambdaAccessPointParseResourceID ''123456789012:example''
     = Inr (''123456789012'', ''example'') \<and>
   ObjectLambdaAccessPointCreateResourceID ''123456789012'' ''example''
     = ''123456789012:example''"
proof -
  have h: "ObjectLambdaAccessPointParseResourceID ''123456789012:example''
             = Inr (''123456789012'', ''example'')"
    by (simp add: ObjectLambdaAccessPointParseResourceID_def
        objectLambdaAccessPointResourceIDSeparator_def Split_colon_simps)
  from CreateResourceID_ParseResourceID [OF h] h show ?thesis by simp
qed

section \<open>The CRUD handlers\<close>

text \<open>A handler calls the remote API exactly when the identifier decodes.\<close>

lemma Read_calls:
  "calls (resourceObjectLambdaAccessPointRead d meta) = [Call_Find a n]
   \<longleftrightarrow> ObjectLambdaAccessPointParseResourceID (Id d) = Inr (a, n)"
  by (auto simp: resourceObjectLambdaAccessPointRead_def Let_def split: sum.splits option.splits)

lemma Delete_calls:
  "calls (resourceObjectLambdaAccessPointDelete d meta) = [Call_Delete a n]
   \<longleftrightarrow> ObjectLambdaAccessPointParseResourceID (Id d) = Inr (a, n)"
  by (auto simp: resourceObjectLambdaAccessPointDelete_def Let_def
      split: sum.splits option.splits)

lemma ParseResourceID_example:
  "ObjectLambdaAccessPointParseResourceID ''123456789012:example''
     = Inr (''123456789012'', ''example'')"
  by (simp add: ObjectLambdaAccessPointParseResourceID_def
      objectLambdaAccessPointResourceIDSeparator_def Split_colon_simps)

subsection \<open>Read of a resource that is gone\<close>

text \<open>
  C2: whenever Read makes the get call and the call signals "not found", Read clears
  the identifier and returns no error if the resource is not new, and returns the
  "not found" error, wrapped, with the resource data untouched if it is new.
\<close>

theorem Read_not_found:
  assumes made: "calls (resourceObjectLambdaAccessPointRead d meta)
                   = [Call_Find accountID accessPointName]"
    and answer: "FindObjectLambdaAccessPointByAccountIDAndName (S3ControlConn meta)
                   accountID accessPointName = Some e"
    and not_found: "NotFound (Some e)"
  shows "resourceObjectLambdaAccessPointRead d meta =
     (if IsNewResource d
      then \<lparr> returned =
               Some (Errorf_w (''error reading S3 Object Lambda Access Point ('' @ Id d
                               @ ''): '') e),
             data = d, calls = [Call_Find accountID accessPointName] \<rparr>
      else \<lparr> returned = None, data = d\<lparr>Id := []\<rparr>,
             calls = [Call_Find accountID accessPointName] \<rparr>)"
proof -
  from made
  have "ObjectLambdaAccessPointParseResourceID (Id d) = Inr (accountID, accessPointName)"
    by (simp only: Read_calls)
  with answer not_found show ?thesis
    by (simp add: resourceObjectLambdaAccessPointRead_def SetId_def)
qed

theorem Read_not_found_witness:
  "resourceObjectLambdaAccessPointRead
     \<lparr> Id = ''123456789012:example'', IsNewResource = False, account_id = ''123456789012'',
       arn = [], configuration = [], name = ''example'' \<rparr>
     \<lparr> AccountID = ''123456789012'', Partition = ''aws'',
       S3ControlConn =
         \<lparr> CreateAccessPointForObjectLambda = (\<lambda>i. None),
           FindObjectLambdaAccessPointByAccountIDAndName =
             (\<lambda>a n. Some (NotFoundError ''not found'')),
           DeleteAccessPointForObjectLambda = (\<lambda>a n. None) \<rparr> \<rparr>
   = \<lparr> returned = None,
       data = \<lparr> Id = [], IsNewResource = False, account_id = ''123456789012'',
                arn = [], configuration = [], name = ''example'' \<rparr>,
       calls = [Call_Find ''123456789012'' ''example''] \<rparr> \<and>
   resourceObjectLambdaAccessPointRead
     \<lparr> Id = ''123456789012:example'', IsNewResource = True, account_id = ''123456789012'',
       arn = [], configuration = [], name = ''example'' \<rparr>
     \<lparr> AccountID = ''123456789012'', Partition = ''aws'',
       S3ControlConn =
         \<lparr> CreateAccessPointForObjectLambda = (\<lambda>i. None),
           FindObjectLambdaAccessPointByAccountIDAndName =
             (\<lambda>a n. Some (NotFoundError ''not found'')),
           DeleteAccessPointForObjectLambda = (\<lambda>a n. None) \<rparr> \<rparr>
   = \<lparr> returned =
         Some (Errorf_w
           ''error reading S3 Object Lambda Access Point (123456789012:example): ''
           (NotFoundError ''not found'')),
       data = \<lparr> Id = ''123456789012:example'', IsNewResource = True,
                account_id = ''123456789012'', arn = [], configuration = [],
                name = ''example'' \<rparr>,
       calls = [Call_Find ''123456789012'' ''example''] \<rparr>"
proof (rule conjI)
  let ?conn = "\<lparr> CreateAccessPointForObjectLambda = (\<lambda>i. None),
           FindObjectLambdaAccessPointByAccountIDAndName =
             (\<lambda>a n. Some (NotFoundError ''not found'')),
           DeleteAccessPointForObjectLambda = (\<lambda>a n. None) \<rparr>"
  let ?meta = "\<lparr> AccountID = ''123456789012'', Partition = ''aws'', S3ControlConn = ?conn \<rparr>"
  let ?old = "\<lparr> Id = ''123456789012:example'', IsNewResource = False,
                account_id = ''123456789012'', arn = [], configuration = [],
                name = ''example'' \<rparr>"
  let ?new = "\<lparr> Id = ''123456789012:example'', IsNewResource = True,
                account_id = ''123456789012'', arn = [], configuration = [],
                name = ''example'' \<rparr>"
  have nf: "NotFound (Some (NotFoundError ''not found''))" by (simp add: NotFound_def)
  have ans: "FindObjectLambdaAccessPointByAccountIDAndName (S3ControlConn ?meta)
               ''123456789012'' ''example'' = Some (NotFoundError ''not found'')"
    by simp
  have old: "calls (resourceObjectLambdaAccessPointRead ?old ?meta)
               = [Call_Find ''123456789012'' ''example'']"
    by (simp add: Read_calls ParseResourceID_example)
  have new: "calls (resourceObjectLambdaAccessPointRead ?new ?meta)
               = [Call_Find ''123456789012'' ''example'']"
    by (simp add: Read_calls ParseResourceID_example)
  from Read_not_found [OF old ans nf]
  show "resourceObjectLambdaAccessPointRead ?old ?meta
          = \<lparr> returned = None,
              data = \<lparr> Id = [], IsNewResource = False, account_id = ''123456789012'',
                       arn = [], configuration = [], name = ''example'' \<rparr>,
              calls = [Call_Find ''123456789012'' ''example''] \<rparr>"
    by simp
  from Read_not_found [OF new ans nf]
  show "resourceObjectLambdaAccessPointRead ?new ?meta
          = \<lparr> returned =
                Some (Errorf_w
                  ''error reading S3 Object Lambda Access Point (123456789012:example): ''
                  (NotFoundError ''not found'')),
              data = ?new,
              calls = [Call_Find ''123456789012'' ''example''] \<rparr>"
    by simp
qed

subsection \<open>Delete of a resource that is gone\<close>

text \<open>
  C6: whenever Delete makes the delete call, it returns no error if the call answers
  with the "no such access point" error code (or with no error), and returns any
  other error of the call, wrapped; the resource data is untouched.
\<close>

theorem Delete_no_such_access_point:
  assumes made: "calls (resourceObjectLambdaAccessPointDelete d meta)
                   = [Call_Delete accountID accessPointName]"
    and answer: "DeleteAccessPointForObjectLambda (S3ControlConn meta)
                   accountID accessPointName = err"
  shows "returned (resourceObjectLambdaAccessPointDelete d meta) =
           (if ErrCodeEquals err errCodeNoSuchAccessPoint then None
            else map_option
                   (Errorf_w (''error deleting S3 Object Lambda Access Point ('' @ Id d
                              @ ''): ''))
                   err) \<and>
         data (resourceObjectLambdaAccessPointDelete d meta) = d"
proof -
  from made
  have "ObjectLambdaAccessPointParseResourceID (Id d) = Inr (accountID, accessPointName)"
    by (simp only: Delete_calls)
  with answer show ?thesis
    by (simp add: resourceObjectLambdaAccessPointDelete_def Let_def split: option.splits)
qed

theorem Delete_no_such_access_point_witness:
  "returned (resourceObjectLambdaAccessPointDelete
     \<lparr> Id = ''123456789012:example'', IsNewResource = False, account_id = ''123456789012'',
       arn = [], configuration = [], name = ''example'' \<rparr>
     \<lparr> AccountID = ''123456789012'', Partition = ''aws'',
       S3ControlConn =
         \<lparr> CreateAccessPointForObjectLambda = (\<lambda>i. None),
           FindObjectLambdaAccessPointByAccountIDAndName = (\<lambda>a n. None),
           DeleteAccessPointForObjectLambda =
             (\<lambda>a n. Some (AwsError ''NoSuchAccessPoint'' ''gone'')) \<rparr> \<rparr>)
   = None \<and>
   returned (resourceObjectLambdaAccessPointDelete
     \<lparr> Id = ''123456789012:example'', IsNewResource = False, account_id = ''123456789012'',
       arn = [], configuration = [], name = ''example'' \<rparr>
     \<lparr> AccountID = ''123456789012'', Partition = ''aws'',
       S3ControlConn =
         \<lparr> CreateAccessPointForObjectLambda = (\<lambda>i. None),
           FindObjectLambdaAccessPointByAccountIDAndName = (\<lambda>a n. None),
           DeleteAccessPointForObjectLambda =
             (\<lambda>a n. Some (AwsError ''AccessDenied'' ''no'')) \<rparr> \<rparr>)
   = Some (Errorf_w ''error deleting S3 Object Lambda Access Point (123456789012:example): ''
             (AwsError ''AccessDenied'' ''no''))"
proof (rule conjI)
  let ?d = "\<lparr> Id = ''123456789012:example'', IsNewResource = False,
              account_id = ''123456789012'', arn = [], configuration = [],
              name = ''example'' \<rparr>"
  let ?gone = "\<lparr> AccountID = ''123456789012'', Partition = ''aws'',
       S3ControlConn =
         \<lparr> CreateAccessPointForObjectLambda = (\<lambda>i. None),
           FindObjectLambdaAccessPointByAccountIDAndName = (\<lambda>a n. None),
           DeleteAccessPointForObjectLambda =
             (\<lambda>a n. Some (AwsError ''NoSuchAccessPoint'' ''gone'')) \<rparr> \<rparr>"
  let ?denied = "\<lparr> AccountID = ''123456789012'', Partition = ''aws'',
       S3ControlConn =
         \<lparr> CreateAccessPointForObjectLambda = (\<lambda>i. None),
           FindObjectLambdaAccessPointByAccountIDAndName = (\<lambda>a n. None),
           DeleteAccessPointForObjectLambda =
             (\<lambda>a n. Some (AwsError ''AccessDenied'' ''no'')) \<rparr> \<rparr>"
  have gone: "calls (resourceObjectLambdaAccessPointDelete ?d ?gone)
                = [Call_Delete ''123456789012'' ''example'']"
    by (simp add: Delete_calls ParseResourceID_example)
  have denied: "calls (resourceObjectLambdaAccessPointDelete ?d ?denied)
                  = [Call_Delete ''123456789012'' ''example'']"
    by (simp add: Delete_calls ParseResourceID_example)
  from Delete_no_such_access_point [OF gone refl]
  show "returned (resourceObjectLambdaAccessPointDelete ?d ?gone) = None"
    by (simp add: ErrCodeEquals_def errCodeNoSuchAccessPoint_def)
  from Delete_no_such_access_point [OF denied refl]
  show "returned (resourceObjectLambdaAccessPointDelete ?d ?denied)
          = Some (Errorf_w
              ''error deleting S3 Object Lambda Access Point (123456789012:example): ''
              (AwsError ''AccessDenied'' ''no''))"
    by (simp add: ErrCodeEquals_def errCodeNoSuchAccessPoint_def)
qed

subsection \<open>Update\<close>

text \<open>
  C9: for every resource data and every client, Update returns what Read returns,
  leaves the resource data as Read leaves it and makes the calls Read makes: none, or
  the one get call; it never calls create or delete.
\<close>

theorem Update_is_Read:
  "resourceObjectLambdaAccessPointUpdate d meta = resourceObjectLambdaAccessPointRead d meta \<and>
   (calls (resourceObjectLambdaAccessPointUpdate d meta) = [] \<or>
    (\<exists>accountID accessPointName.
       calls (resourceObjectLambdaAccessPointUpdate d meta)
         = [Call_Find accountID accessPointName]))"
  by (auto simp: resourceObjectLambdaAccessPointUpdate_def
      resourceObjectLambdaAccessPointRead_def Let_def split: sum.splits option.splits)

subsection \<open>Create\<close>

text \<open>
  C4, as the spec states it, fails on the ARN: the partition is the second field of
  the ARN and its region field is empty. In the partition \<open>aws\<close> the scenario's Create
  assigns the identifier \<open>123456789012:example\<close> and Read sets
  \<open>arn:aws:s3-object-lambda::123456789012:accesspoint/example\<close>, which is not the
  spec's \<open>arn:aws:s3-object-lambda:<partition>:123456789012:accesspoint/example\<close>.
\<close>

theorem Create_example_arn_counterexample:
  "resourceObjectLambdaAccessPointCreate
     \<lparr> Id = [], IsNewResource = True, account_id = [], arn = [],
       configuration =
         [IMap (Some [''allowed_features'' \<mapsto> ISet [IString ''GetObject-Range''],
                      ''supporting_access_point'' \<mapsto>
                        IString ''arn:aws:s3:us-east-1:123456789012:accesspoint/my-ap''])],
       name = ''example'' \<rparr>
     \<lparr> AccountID = ''123456789012'', Partition = ''aws'',
       S3ControlConn =
         \<lparr> CreateAccessPointForObjectLambda = (\<lambda>i. None),
           FindObjectLambdaAccessPointByAccountIDAndName = (\<lambda>a n. None),
           DeleteAccessPointForObjectLambda = (\<lambda>a n. None) \<rparr> \<rparr>
   = Inr \<lparr> returned = None,
           data =
             \<lparr> Id = ''123456789012:example'', IsNewResource = True,
               account_id = ''123456789012'',
               arn = ''arn:aws:s3-object-lambda::123456789012:accesspoint/example'',
               configuration =
                 [IMap (Some [''allowed_features'' \<mapsto> ISet [IString ''GetObject-Range''],
                              ''supporting_access_point'' \<mapsto>
                                IString
                                  ''arn:aws:s3:us-east-1:123456789012:accesspoint/my-ap''])],
               name = ''example'' \<rparr>,
           calls =
             [Call_Create
                \<lparr> AccountId = Some ''123456789012'',
                  Configuration = Some
                    \<lparr> AllowedFeatures = Some [''GetObject-Range''],
                      CloudWatchMetricsEnabled = None,
                      SupportingAccessPoint =
                        Some ''arn:aws:s3:us-east-1:123456789012:accesspoint/my-ap'',
                      TransformationConfigurations = None \<rparr>,
                  Name = Some ''example'' \<rparr>,
              Call_Find ''123456789012'' ''example''] \<rparr> \<and>
   ''arn:aws:s3-object-lambda::123456789012:accesspoint/example''
     \<noteq> ''arn:aws:s3-object-lambda:aws:123456789012:accesspoint/example''"
  by (simp add: resourceObjectLambdaAccessPointCreate_def
      resourceObjectLambdaAccessPointRead_def ObjectLambdaAccessPointCreateResourceID_def
      objectLambdaAccessPointResourceIDSeparator_def expandObjectLambdaConfiguration_def
      at_key_def ExpandStringSet_def SetId_def ParseResourceID_example ARN_String_def
      NotFound_def Let_def)

text \<open>
  C4, amended: for a Create with the name \<open>example\<close> and the configuration of the
  scenario under the account \<open>123456789012\<close>, when the create call and the get call
  succeed, Create returns no error, the identifier is \<open>123456789012:example\<close> and the
  Read it ends with sets the \<open>arn\<close> attribute to
  \<open>arn:<partition>:s3-object-lambda::123456789012:accesspoint/example\<close>.
\<close>

theorem Create_example:
  assumes account: "AccountID meta = ''123456789012''"
    and d: "account_id d = []" "name d = ''example''"
      "configuration d =
         [IMap (Some [''allowed_features'' \<mapsto> ISet [IString ''GetObject-Range''],
                      ''supporting_access_point'' \<mapsto>
                        IString ''arn:aws:s3:us-east-1:123456789012:accesspoint/my-ap''])]"
    and created: "CreateAccessPointForObjectLambda (S3ControlConn meta)
        \<lparr> AccountId = Some ''123456789012'',
          Configuration = Some
            \<lparr> AllowedFeatures = Some [''GetObject-Range''],
              CloudWatchMetricsEnabled = None,
              SupportingAccessPoint =
                Some ''arn:aws:s3:us-east-1:123456789012:accesspoint/my-ap'',
              TransformationConfigurations = None \<rparr>,
          Name = Some ''example'' \<rparr> = None"
    and found: "FindObjectLambdaAccessPointByAccountIDAndName (S3ControlConn meta)
        ''123456789012'' ''example'' = None"
  shows "\<exists>r. resourceObjectLambdaAccessPointCreate d meta = Inr r \<and>
             returned r = None \<and>
             Id (data r) = ''123456789012:example'' \<and>
             arn (data r) = ''arn:'' @ Partition meta
                              @ '':s3-object-lambda::123456789012:accesspoint/example''"
proof -
  have ident: "ObjectLambdaAccessPointCreateResourceID ''123456789012'' ''example''
                 = ''123456789012:example''"
    by (simp add: ObjectLambdaAccessPointCreateResourceID_def
        objectLambdaAccessPointResourceIDSeparator_def)
  have cfg: "expandObjectLambdaConfiguration
               (Some [''allowed_features'' \<mapsto> ISet [IString ''GetObject-Range''],
                      ''supporting_access_point'' \<mapsto>
                        IString ''arn:aws:s3:us-east-1:123456789012:accesspoint/my-ap''])
      = Inr (Some \<lparr> AllowedFeatures = Some [''GetObject-Range''],
              CloudWatchMetricsEnabled = None,
              SupportingAccessPoint =
                Some ''arn:aws:s3:us-east-1:123456789012:accesspoint/my-ap'',
              TransformationConfigurations = None \<rparr>)"
    by (simp add: expandObjectLambdaConfiguration_def at_key_def ExpandStringSet_def)
  have rd: "resourceObjectLambdaAccessPointRead (SetId d ''123456789012:example'') meta
     = \<lparr> returned = None,
         data = d\<lparr> Id := ''123456789012:example'', account_id := ''123456789012'',
                   arn := ''arn:'' @ Partition meta
                            @ '':s3-object-lambda::123456789012:accesspoint/example'',
                   name := ''example'' \<rparr>,
         calls = [Call_Find ''123456789012'' ''example''] \<rparr>"
    using found
    by (simp add: resourceObjectLambdaAccessPointRead_def SetId_def ParseResourceID_example
        ARN_String_def NotFound_def Let_def)
  show ?thesis
    using account d created
    by (simp add: resourceObjectLambdaAccessPointCreate_def ident cfg rd Let_def)
qed

theorem Create_example_witness:
  "\<exists>r. resourceObjectLambdaAccessPointCreate
         \<lparr> Id = [], IsNewResource = True, account_id = [], arn = [],
           configuration =
             [IMap (Some [''allowed_features'' \<mapsto> ISet [IString ''GetObject-Range''],
                          ''supporting_access_point'' \<mapsto>
                            IString ''arn:aws:s3:us-east-1:123456789012:accesspoint/my-ap''])],
           name = ''example'' \<rparr>
         \<lparr> AccountID = ''123456789012'', Partition = ''aws-cn'',
           S3ControlConn =
             \<lparr> CreateAccessPointForObjectLambda = (\<lambda>i. None),
               FindObjectLambdaAccessPointByAccountIDAndName = (\<lambda>a n. None),
               DeleteAccessPointForObjectLambda = (\<lambda>a n. None) \<rparr> \<rparr>
         = Inr r \<and>
       returned r = None \<and>
       Id (data r) = ''123456789012:example'' \<and>
       arn (data r) = ''arn:aws-cn:s3-object-lambda::123456789012:accesspoint/example''"
  using Create_example
    [of "\<lparr> AccountID = ''123456789012'', Partition = ''aws-cn'',
           S3ControlConn =
             \<lparr> CreateAccessPointForObjectLambda = (\<lambda>i. None),
               FindObjectLambdaAccessPointByAccountIDAndName = (\<lambda>a n. None),
               DeleteAccessPointForObjectLambda = (\<lambda>a n. None) \<rparr> \<rparr>"
        "\<lparr> Id = [], IsNewResource = True, account_id = [], arn = [],
           configuration =
             [IMap (Some [''allowed_features'' \<mapsto> ISet [IString ''GetObject-Range''],
                          ''supporting_access_point'' \<mapsto>
                            IString ''arn:aws:s3:us-east-1:123456789012:accesspoint/my-ap''])],
           name = ''example'' \<rparr>"]
  by simp

section \<open>Expand and flatten\<close>

subsection \<open>Fields that stay unset\<close>



















subsection \<open>Flatten after expand\<close>

lemma restrict_single: "m k = Some v \<Longrightarrow> [k \<mapsto> v] = m |` {k}"
  by (auto simp: fun_eq_iff restrict_map_def)

lemma restrict_dom: "dom m = A \<Longrightarrow> m |` A = m"
  by (auto simp: fun_eq_iff restrict_map_def domIff)

lemma restrict_public_access_block:
  assumes "pm ''block_public_acls'' = Some (IBool a)"
    "pm ''block_public_policy'' = Some (IBool p)"
    "pm ''ignore_public_acls'' = Some (IBool i)"
    "pm ''restrict_public_buckets'' = Some (IBool r)"
  shows "[''block_public_acls'' \<mapsto> IBool a, ''block_public_policy'' \<mapsto> IBool p,
          ''ignore_public_acls'' \<mapsto> IBool i, ''restrict_public_buckets'' \<mapsto> IBool r]
         = pm |` {''block_public_acls'', ''block_public_policy'', ''ignore_public_acls'',
                  ''restrict_public_buckets''}"
  using assms by (auto simp: fun_eq_iff restrict_map_def)

text \<open>
  C7: a block with every key that its expand function reads, of the key's type,
  expands to a structure with every field set, and that structure flattens to the
  block restricted to these keys: to the block itself when it has no other key.
\<close>

theorem flatten_expand_block:
  assumes vpc: "vm ''vpc_id'' = Some (IString v)"
    and pab: "pm ''block_public_acls'' = Some (IBool a)"
      "pm ''block_public_policy'' = Some (IBool p)"
      "pm ''ignore_public_acls'' = Some (IBool i)"
      "pm ''restrict_public_buckets'' = Some (IBool r)"
  shows "expandS3ObjectLambdaAccessPointVpcConfiguration (Some [IMap (Some vm)])
           = Inr (Some \<lparr> VpcId = Some v \<rparr>) \<and>
         flattenS3ObjectLambdaAccessPointVpcConfiguration (Some \<lparr> VpcId = Some v \<rparr>)
           = Some [IMap (Some (vm |` {''vpc_id''}))] \<and>
         (dom vm = {''vpc_id''} \<longrightarrow>
            flattenS3ObjectLambdaAccessPointVpcConfiguration (Some \<lparr> VpcId = Some v \<rparr>)
              = Some [IMap (Some vm)]) \<and>
         expandS3ObjectLambdaAccessPointPublicAccessBlockConfiguration (Some [IMap (Some pm)])
           = Inr (Some \<lparr> BlockPublicAcls = Some a, BlockPublicPolicy = Some p,
                          IgnorePublicAcls = Some i, RestrictPublicBuckets = Some r \<rparr>) \<and>
         flattenS3ObjectLambdaAccessPointPublicAccessBlockConfiguration
             (Some \<lparr> BlockPublicAcls = Some a, BlockPublicPolicy = Some p,
                      IgnorePublicAcls = Some i, RestrictPublicBuckets = Some r \<rparr>)
           = Some [IMap (Some (pm |` {''block_public_acls'', ''block_public_policy'',
                                      ''ignore_public_acls'', ''restrict_public_buckets''}))] \<and>
         (dom pm = {''block_public_acls'', ''block_public_policy'', ''ignore_public_acls'',
                    ''restrict_public_buckets''} \<longrightarrow>
            flattenS3ObjectLambdaAccessPointPublicAccessBlockConfiguration
                (Some \<lparr> BlockPublicAcls = Some a, BlockPublicPolicy = Some p,
                         IgnorePublicAcls = Some i, RestrictPublicBuckets = Some r \<rparr>)
              = Some [IMap (Some pm)])"
proof -
  have ve: "expandS3ObjectLambdaAccessPointVpcConfiguration (Some [IMap (Some vm)])
              = Inr (Some \<lparr> VpcId = Some v \<rparr>)"
    using vpc by (simp add: expandS3ObjectLambdaAccessPointVpcConfiguration_def at_key_def)
  have "flattenS3ObjectLambdaAccessPointVpcConfiguration (Some \<lparr> VpcId = Some v \<rparr>)
          = Some [IMap (Some [''vpc_id'' \<mapsto> IString v])]"
    by (simp add: flattenS3ObjectLambdaAccessPointVpcConfiguration_def StringValue_def)
  with restrict_single [of vm "''vpc_id''" "IString v"] vpc
  have vf: "flattenS3ObjectLambdaAccessPointVpcConfiguration (Some \<lparr> VpcId = Some v \<rparr>)
              = Some [IMap (Some (vm |` {''vpc_id''}))]"
    by metis
  have pe: "expandS3ObjectLambdaAccessPointPublicAccessBlockConfiguration
              (Some [IMap (Some pm)])
              = Inr (Some \<lparr> BlockPublicAcls = Some a, BlockPublicPolicy = Some p,
                             IgnorePublicAcls = Some i, RestrictPublicBuckets = Some r \<rparr>)"
    using pab
    by (simp add: expandS3ObjectLambdaAccessPointPublicAccessBlockConfiguration_def at_key_def)
  have "flattenS3ObjectLambdaAccessPointPublicAccessBlockConfiguration
          (Some \<lparr> BlockPublicAcls = Some a, BlockPublicPolicy = Some p,
                   IgnorePublicAcls = Some i, RestrictPublicBuckets = Some r \<rparr>)
          = Some [IMap (Some [''block_public_acls'' \<mapsto> IBool a,
                              ''block_public_policy'' \<mapsto> IBool p,
                              ''ignore_public_acls'' \<mapsto> IBool i,
                              ''restrict_public_buckets'' \<mapsto> IBool r])]"
    by (simp add: flattenS3ObjectLambdaAccessPointPublicAccessBlockConfiguration_def
        BoolValue_def)
  with restrict_public_access_block [OF pab]
  have pf: "flattenS3ObjectLambdaAccessPointPublicAccessBlockConfiguration
              (Some \<lparr> BlockPublicAcls = Some a, BlockPublicPolicy = Some p,
                       IgnorePublicAcls = Some i, RestrictPublicBuckets = Some r \<rparr>)
              = Some [IMap (Some (pm |` {''block_public_acls'', ''block_public_policy'',
                                         ''ignore_public_acls'',
                                         ''restrict_public_buckets''}))]"
    by metis
  from ve vf pe pf show ?thesis
    by (simp add: restrict_dom)
qed

theorem flatten_expand_block_witness:
  "expandS3ObjectLambdaAccessPointVpcConfiguration
     (Some [IMap (Some [''vpc_id'' \<mapsto> IString ''vpc-0a1b''])])
     = Inr (Some \<lparr> VpcId = Some ''vpc-0a1b'' \<rparr>) \<and>
   flattenS3ObjectLambdaAccessPointVpcConfiguration (Some \<lparr> VpcId = Some ''vpc-0a1b'' \<rparr>)
     = Some [IMap (Some [''vpc_id'' \<mapsto> IString ''vpc-0a1b''])] \<and>
   expandS3ObjectLambdaAccessPointPublicAccessBlockConfiguration
     (Some [IMap (Some [''block_public_acls'' \<mapsto> IBool True,
                        ''block_public_policy'' \<mapsto> IBool False,
                        ''ignore_public_acls'' \<mapsto> IBool True,
                        ''restrict_public_buckets'' \<mapsto> IBool False])])
     = Inr (Some \<lparr> BlockPublicAcls = Some True, BlockPublicPolicy = Some False,
                    IgnorePublicAcls = Some True, RestrictPublicBuckets = Some False \<rparr>) \<and>
   flattenS3ObjectLambdaAccessPointPublicAccessBlockConfiguration
     (Some \<lparr> BlockPublicAcls = Some True, BlockPublicPolicy = Some False,
              IgnorePublicAcls = Some True, RestrictPublicBuckets = Some False \<rparr>)
     = Some [IMap (Some [''block_public_acls'' \<mapsto> IBool True,
                         ''block_public_policy'' \<mapsto> IBool False,
                         ''ignore_public_acls'' \<mapsto> IBool True,
                         ''restrict_public_buckets'' \<mapsto> IBool False])]"
proof -
  let ?vm = "[''vpc_id'' \<mapsto> IString ''vpc-0a1b'']"
  let ?pm = "[''block_public_acls'' \<mapsto> IBool True,
              ''block_public_policy'' \<mapsto> IBool False,
              ''ignore_public_acls'' \<mapsto> IBool True,
              ''restrict_public_buckets'' \<mapsto> IBool False]"
  have keys: "?vm ''vpc_id'' = Some (IString ''vpc-0a1b'')"
    "?pm ''block_public_acls'' = Some (IBool True)"
    "?pm ''block_public_policy'' = Some (IBool False)"
    "?pm ''ignore_public_acls'' = Some (IBool True)"
    "?pm ''restrict_public_buckets'' = Some (IBool False)"
    by simp_all
  have doms: "dom ?vm = {''vpc_id''}"
    "dom ?pm = {''block_public_acls'', ''block_public_policy'', ''ignore_public_acls'',
                ''restrict_public_buckets''}"
    by auto
  from flatten_expand_block [of ?vm "''vpc-0a1b''" ?pm True False True False] keys doms
  show ?thesis by blast
qed

subsection \<open>Flatten of nil\<close>

text \<open>
  C8: each of the two flatten functions maps the nil structure to the empty list,
  which is not the nil slice.
\<close>

theorem flatten_nil:
  "flattenS3ObjectLambdaAccessPointVpcConfiguration None = Some [] \<and>
   flattenS3ObjectLambdaAccessPointPublicAccessBlockConfiguration None = Some []"
  by (simp add: flattenS3ObjectLambdaAccessPointVpcConfiguration_def
      flattenS3ObjectLambdaAccessPointPublicAccessBlockConfiguration_def)

end
